theory Spec2Isabelle
  imports Main "HOL-Library.Word" "HOL-Library.Sublist"
begin

section \<open>The relay server of entry-hw: data model\<close>

text \<open>
  The class \<open>Server\<close> (the socket.io relay between the hardware process and the Entry
  workspace) is embedded as a record of its fields, and every method and every event
  handler as a function from the record to the record after the call, the list of the
  calls it makes on its collaborators (socket.io, the router, the renderer console,
  the http server) in the order it makes them, and the exception it throws, if any.

  Conventions of the embedding:
  \<^item> a JavaScript value that is a string or \<open>undefined\<close> is a \<open>string option\<close>, with
    \<open>None\<close> for \<open>undefined\<close>;
  \<^item> an object used as a dictionary whose values are never read (\<open>connectionSet\<close>,
    \<open>childServerList\<close>) is the list of its own keys in insertion order, so that
    \<open>Object.keys(o).length\<close> is the length of the list; \<open>clientTargetList\<close>, whose
    values are read, is the map of its own properties, read through \<open>table_lookup\<close>,
    which falls back on the members of \<open>Object.prototype\<close> as a plain object does;
  \<^item> a socket is named by a handle: a server-side connection by its socket.io id (a
    string that socket.io generates, never the name of a member of
    \<open>Object.prototype\<close>), a client socket by the number its creator gives it;
  \<^item> a message is an object; its fields are read as the handler reads them;
  \<^item> \<open>console.log\<close> is left out; the renderer console is kept, and taken to be
    initialised.
\<close>

text \<open>
  Modelled from the spec: the table \<open>SERVER_MODE_TYPES\<close> of \<open>../common/constants\<close>, which
  is not among the sources. The server uses four of its entries, taken to be distinct:
  the display modes \<open>single\<close> and \<open>multi\<close> (the spec's Single and Multi), and the roles
  \<open>parent\<close> and \<open>child\<close> (the spec's Hub and Subordinate).
\<close>

datatype server_mode_type = Single | Multi | Parent | Child

datatype error = TypeError | SyntaxError

datatype sock = Entry_socket string | Uplink_socket nat

text \<open>
  What line 247, \<open>const { name } = JSON.parse(message.data)\<close>, makes of the data of a message:
  \<^item> \<open>Not_json\<close>: \<open>JSON.parse\<close> refuses the data (it is not JSON text, as \<open>'{'\<close> or a missing
    data field) and throws a SyntaxError;
  \<^item> \<open>Json_null\<close>: \<open>JSON.parse\<close> returns \<open>null\<close> (the data is the text \<open>'null'\<close>), and the
    destructuring of \<open>null\<close> throws a TypeError;
  \<^item> \<open>Parsed n\<close>: \<open>JSON.parse\<close> returns another value, and \<open>name\<close> is bound to the string
    \<open>n\<close>, or to \<open>undefined\<close>;
  \<^item> \<open>Parsed_other t text\<close>: \<open>JSON.parse\<close> returns another value, and \<open>name\<close> is bound to a
    value that is neither a string nor \<open>undefined\<close> (a number, a boolean, \<open>null\<close>, an array
    or an object), truthy if \<open>t\<close>, and with \<open>text\<close> as the string it is coerced to.
\<close>

datatype parsed_data =
    Not_json
  | Json_null
  | Parsed "string option"
  | Parsed_other bool string

record message =
  action :: "string option"
  mode :: "server_mode_type option"
  data :: parsed_data
  key :: "string option"

datatype payload =
    Packet_data "8 word list"
  | State_statement string
  | App message

datatype emitted =
    Mode_event server_mode_type
  | Matched_event string
  | Matching_event
  | Match_target_event "string option"
  | Message_event payload

datatype ack_key = Key_true | Key string

datatype effect =
    Server_emit emitted
  | Server_to "string option" emitted
  | Server_to_inherited string emitted
  | Socket_emit sock emitted
  | Socket_join string "string option"
  | Socket_close sock
  | Notify_server_mode server_mode_type
  | Handle_server_data payload
  | Server_event string
  | Renderer_send "string list"
  | Ack ack_key
  | Http_listen nat
  | Io_client sock nat
  | Io_server
  | Close_socket_server
  | Close_http_server
  | Net_request string string string
  | Request_end
  | Pipe_to_zip string
  | Read_file string
  | Send_state string string
  | Start_scan string

record handshake_query =
  q_roomId :: "string option"
  q_childServer :: "string option"

record connection =
  conn_id :: string
  handshake :: "handshake_query option"
  roomId :: "string option"
  roomIds :: "string list option"

record server =
  packet :: "8 word list"
  connections :: "sock list"
  connectionSet :: "string list"
  roomCnt :: nat
  childServerList :: "string list"
  clientTargetList :: "string \<rightharpoonup> string"
  runningMode :: server_mode_type
  currentServerMode :: server_mode_type
  masterRoomIds :: "string option list"
  clientRoomId :: "string option"
  socketClient :: "sock option"
  socketServer :: bool
  httpServer :: bool
  state :: "string option"

datatype obj = Sock sock | This_server

section \<open>JavaScript primitives the server uses\<close>

text \<open>Truthiness of a value that is a string or \<open>undefined\<close>.\<close>

definition truthy :: "string option \<Rightarrow> bool" where
  "truthy v = (case v of None \<Rightarrow> False | Some s \<Rightarrow> s \<noteq> [])"

text \<open>
  The string a value is coerced to, as a property key in \<open>o[v]\<close> and in a template
  literal.
\<close>

definition js_string :: "string option \<Rightarrow> string" where
  "js_string v = (case v of None \<Rightarrow> ''undefined'' | Some s \<Rightarrow> s)"

text \<open>\<open>Array.prototype.indexOf\<close>: the first index of the value, or \<open>-1\<close>.\<close>

fun indexOf :: "'a list \<Rightarrow> 'a \<Rightarrow> int" where
  "indexOf [] x = -1"
| "indexOf (y # ys) x =
     (if y = x then 0 else (let i = indexOf ys x in if i = -1 then -1 else i + 1))"

text \<open>\<open>Array.prototype.slice(begin, end)\<close>: a copy of a part; the array stays as it is.\<close>

definition slice :: "'a list \<Rightarrow> int \<Rightarrow> int \<Rightarrow> 'a list" where
  "slice xs b e =
     (let n = int (length xs);
          k = (if b < 0 then max (n + b) 0 else min b n);
          f = (if e < 0 then max (n + e) 0 else min e n)
      in take (nat (f - k)) (drop (nat k) xs))"

text \<open>\<open>o[k] = v\<close> and \<open>delete o[k]\<close> on the keys of a dictionary object.\<close>

definition set_key :: "string list \<Rightarrow> string \<Rightarrow> string list" where
  "set_key ks k = (if k \<in> set ks then ks else ks @ [k])"

definition delete_key :: "string list \<Rightarrow> string \<Rightarrow> string list" where
  "delete_key ks k = removeAll k ks"

text \<open>
  Reading \<open>o[k]\<close> of a dictionary object made by \<open>{}\<close>: the own property if there is one,
  else the member of \<open>Object.prototype\<close> of that name (a function, or for \<open>__proto__\<close> the
  prototype itself: truthy values that are not strings), else \<open>undefined\<close>. Writing a
  string to \<open>o['__proto__']\<close> creates no property; the setter ignores it.
\<close>

definition object_prototype_keys :: "string list" where
  "object_prototype_keys =
     [''constructor'', ''__defineGetter__'', ''__defineSetter__'', ''hasOwnProperty'',
      ''__lookupGetter__'', ''__lookupSetter__'', ''isPrototypeOf'', ''propertyIsEnumerable'',
      ''toString'', ''valueOf'', ''__proto__'', ''toLocaleString'']"

datatype looked_up = Absent | Own string | Inherited string

definition table_lookup :: "(string \<rightharpoonup> string) \<Rightarrow> string \<Rightarrow> looked_up" where
  "table_lookup m k =
     (case m k of
        Some v \<Rightarrow> Own v
      | None \<Rightarrow> (if k \<in> set object_prototype_keys then Inherited k else Absent))"

definition table_store :: "(string \<rightharpoonup> string) \<Rightarrow> string \<Rightarrow> string \<Rightarrow> (string \<rightharpoonup> string)" where
  "table_store m k v = (if k = ''__proto__'' then m else m(k \<mapsto> v))"

text \<open>\<open>a.push(v)\<close> guarded by \<open>a.indexOf(v) === -1\<close>, as lines 43, 50, 101 and 132 have it.\<close>

definition push_absent :: "'a list \<Rightarrow> 'a \<Rightarrow> 'a list" where
  "push_absent xs v = (if indexOf xs v = -1 then xs @ [v] else xs)"

section \<open>The renderer console (utils/rendererConsole.js)\<close>

definition rendererConsole_info :: "string \<Rightarrow> effect list" where
  "rendererConsole_info contents =
     [Renderer_send [''console'', ''%c'' @ contents, ''color: dodgerblue'']]"

definition rendererConsole_warn :: "string \<Rightarrow> effect list" where
  "rendererConsole_warn contents =
     [Renderer_send [''console'', ''%c'' @ contents, ''color: orange'']]"

section \<open>The server\<close>

text \<open>The constructor (lines 24-39); \<open>this.state\<close> is not assigned there.\<close>

definition new_Server :: server where
  "new_Server =
     \<lparr> packet = [1, 0, 0, 0], connections = [], connectionSet = [], roomCnt = 0,
       childServerList = [], clientTargetList = Map.empty, runningMode = Parent,
       currentServerMode = Single, masterRoomIds = [], clientRoomId = Some [],
       socketClient = None, socketServer = False, httpServer = False, state = None \<rparr>"

text \<open>\<open>addRoomIdsOnSecondInstance\<close> (lines 41-55).\<close>

definition addRoomIdsOnSecondInstance :: "server \<Rightarrow> string option \<Rightarrow> server \<times> effect list" where
  "addRoomIdsOnSecondInstance s r =
     (if runningMode s = Parent then
        (s\<lparr>masterRoomIds := push_absent (masterRoomIds s) r\<rparr>, [])
      else if truthy r then
        (s\<lparr>clientRoomId := r, masterRoomIds := push_absent (masterRoomIds s) r\<rparr>,
         (case socketClient s of
            None \<Rightarrow> []
          | Some k \<Rightarrow> [Socket_emit k (Match_target_event r)]))
      else (s, []))"

text \<open>\<open>toggleServerMode\<close> (lines 66-69).\<close>

definition toggleServerMode :: "server \<Rightarrow> server_mode_type \<Rightarrow> server \<times> effect list" where
  "toggleServerMode s m = (s\<lparr>currentServerMode := m\<rparr>, [Notify_server_mode m])"

text \<open>
  \<open>send\<close> (lines 379-395). When the hub has relays and rooms but \<open>this.socketServer\<close> is
  \<open>undefined\<close>, reading \<open>.to\<close> of it throws before anything is emitted.
\<close>

definition send :: "server \<Rightarrow> payload \<Rightarrow> effect list \<times> error option" where
  "send s p =
     (let childServerListCnt = length (childServerList s) in
      if (runningMode s = Parent \<and> childServerListCnt = 0) \<or> runningMode s = Child then
        (if length (connections s) \<noteq> 0
         then (map (\<lambda>c. Socket_emit c (Message_event p)) (connections s), None)
         else ([], None))
      else if length (masterRoomIds s) > 0 then
        (if socketServer s
         then (map (\<lambda>r. Server_to r (Message_event p)) (masterRoomIds s), None)
         else ([], Some TypeError))
      else ([], None))"

text \<open>
  \<open>setState\<close> (lines 397-415). The packet is the buffer the constructor made; writing
  index 3 of it is a list update, and the payload carries the buffer as it is then.
\<close>

definition state_code :: "string option \<Rightarrow> 8 word option" where
  "state_code st =
     (if st = Some ''connecting'' then Some 1
      else if st = Some ''connected'' then Some 2
      else if st = Some ''lost'' then Some 3
      else if st = Some ''disconnected'' then Some 4
      else None)"

definition setState :: "server \<Rightarrow> string option \<Rightarrow> server \<times> effect list \<times> error option" where
  "setState s st =
     (let s1 = s\<lparr>state := st\<rparr> in
      if length (connections s1) \<noteq> 0 then
        (case state_code st of
           None \<Rightarrow> (s1, [], None)
         | Some b \<Rightarrow>
             (let s2 = s1\<lparr>packet := (packet s1)[3 := b]\<rparr>
              in (s2, send s2 (Packet_data (packet s2)))))
      else (s1, [], None))"

text \<open>\<open>disconnectHardware\<close> (lines 417-424).\<close>

definition disconnectHardware :: "server \<Rightarrow> effect list \<times> error option" where
  "disconnectHardware s = send s (State_statement ''disconnectHardware'')"

text \<open>\<open>close\<close> (lines 426-437).\<close>

definition close_server :: "server \<Rightarrow> server \<times> effect list" where
  "close_server s =
     (let e1 = (if socketServer s then [Close_socket_server] else []);
          e2 = (if httpServer s then [Close_http_server] else [])
      in (s\<lparr>socketServer := False, httpServer := False, connections := []\<rparr>,
          e1 @ e2 @ [Server_event ''closed'']))"

text \<open>
  \<open>closeSingleConnection\<close> (lines 366-373). The copy that \<open>slice\<close> returns is dropped, so
  \<open>this.connections\<close> is what it was. The argument is any object; line 279 passes the
  server itself.
\<close>

definition closeSingleConnection :: "server \<Rightarrow> obj \<Rightarrow> server \<times> effect list" where
  "closeSingleConnection s c =
     (let index = indexOf (map Sock (connections s)) c in
      if index > -1 then
        (let dropped = slice (connections s) index 1 in
         (case c of
            Sock k \<Rightarrow> (s, [Socket_close k])
          | This_server \<Rightarrow> close_server s))
      else (s, []))"

text \<open>
  \<open>_requestHardware\<close> (lines 321-364). The promise it returns settles once. The call
  itself either rejects or sends the request; what follows is driven by the events of
  the response, of the unpacking stream and of \<open>fs.readFile\<close>, each handled only once
  its handler is registered. The application sets \<open>global.sharedObject\<close> before it
  builds the server; line 329 reads two fields of it that nothing uses.
  The configuration file's parsed content is a string here; \<open>None\<close> stands for a read
  that failed or text that \<open>JSON.parse\<close> refuses (line 347 then throws).
\<close>

datatype promise = Pending | Resolved | Rejected

datatype fetch_phase =
    No_request
  | Awaiting_response
  | Refused
  | Unpacking
  | Reading_config
  | Config_read

record fetch =
  settled :: promise
  phase :: fetch_phase

datatype fetch_event =
    Response nat
  | Response_error
  | Zip_done
  | File_read "string option"

definition settle :: "promise \<Rightarrow> promise \<Rightarrow> promise" where
  "settle p q = (if p = Pending then q else p)"

definition module_path :: "string option \<Rightarrow> string" where
  "module_path moduleName = ''/api/hardware/'' @ js_string moduleName @ ''/module''"

definition requestHardware :: "string option \<Rightarrow> fetch \<times> effect list" where
  "requestHardware moduleName =
     (if \<not> truthy moduleName then (\<lparr>settled = Rejected, phase = No_request\<rparr>, [])
      else
        (\<lparr>settled = Pending, phase = Awaiting_response\<rparr>,
         [Net_request ''localhost:4000'' ''http:'' (module_path moduleName),
          Request_end]))"

definition fetch_step ::
  "string option \<Rightarrow> fetch \<Rightarrow> fetch_event \<Rightarrow> fetch \<times> effect list \<times> error option" where
  "fetch_step moduleName f ev =
     (case ev of
        Response statusCode \<Rightarrow>
          (if phase f = Awaiting_response then
             (if statusCode = 200
              then (f\<lparr>phase := Unpacking\<rparr>, [Pipe_to_zip ''app/modules''], None)
              else (f\<lparr>settled := settle (settled f) Rejected, phase := Refused\<rparr>, [], None))
           else (f, [], None))
      | Response_error \<Rightarrow>
          (if phase f \<in> {Refused, Unpacking, Reading_config, Config_read}
           then (f\<lparr>settled := settle (settled f) Rejected\<rparr>, [], None)
           else (f, [], None))
      | Zip_done \<Rightarrow>
          (if phase f = Unpacking then
             (f\<lparr>settled := settle (settled f) Resolved, phase := Reading_config\<rparr>,
              [Read_file (''app/modules/'' @ js_string moduleName @ ''.json'')], None)
           else (f, [], None))
      | File_read r \<Rightarrow>
          (if phase f = Reading_config then
             (case r of
                None \<Rightarrow> (f\<lparr>phase := Config_read\<rparr>, [], Some SyntaxError)
              | Some config \<Rightarrow>
                  (f\<lparr>phase := Config_read\<rparr>,
                   [Send_state ''show_robot'' config, Start_scan config], None))
           else (f, [], None)))"

fun fetch_run :: "string option \<Rightarrow> fetch \<Rightarrow> fetch_event list \<Rightarrow> fetch \<times> effect list" where
  "fetch_run moduleName f [] = (f, [])"
| "fetch_run moduleName f (ev # evs) =
     (case fetch_step moduleName f ev of
        (f1, e1, x) \<Rightarrow>
          (case fetch_run moduleName f1 evs of (f2, e2) \<Rightarrow> (f2, e1 @ e2)))"

text \<open>
  A whole fetch: the call, then the events that arrive for it, in order. The result is
  the promise with the phase reached, and every call made on the way; \<open>Send_state\<close> and
  \<open>Start_scan\<close> are the two calls that hand a configuration to the router (lines
  348-349). An exception thrown in the \<open>readFile\<close> callback ends that callback only.
\<close>

definition hardware_fetch :: "string option \<Rightarrow> fetch_event list \<Rightarrow> fetch \<times> effect list" where
  "hardware_fetch moduleName evs =
     (case requestHardware moduleName of
        (f0, e0) \<Rightarrow>
          (case fetch_run moduleName f0 evs of (f1, e1) \<Rightarrow> (f1, e0 @ e1)))"

text \<open>
  \<open>open\<close> (lines 71-113) registers the two handlers and starts listening on port 23518;
  the fields change when \<open>error\<close> or \<open>listening\<close> arrives.
\<close>

definition open_server :: "server \<Rightarrow> server \<times> effect list" where
  "open_server s = (s, [Http_listen 23518])"

text \<open>
  The \<open>error\<close> handler (lines 82-89), with \<open>_createSocketClient\<close> (lines 121-161) making
  the client socket \<open>k\<close> with \<open>reconnectionAttempts: 3\<close>.
\<close>

definition on_http_error :: "server \<Rightarrow> sock \<Rightarrow> server \<times> effect list" where
  "on_http_error s k =
     (let s1 = s\<lparr>runningMode := Child\<rparr>;
          (s2, e2) = toggleServerMode s1 Multi
      in (s2\<lparr>connections := connections s2 @ [k], socketClient := Some k\<rparr>,
          e2 @ [Io_client k 3]))"

text \<open>The \<open>listening\<close> handler (lines 97-110); \<open>rs\<close> is \<open>this.router.roomIds\<close>.\<close>

definition merge_room :: "string option list \<Rightarrow> string option \<Rightarrow> string option list" where
  "merge_room ms r = (if indexOf ms r = -1 \<and> truthy r then ms @ [r] else ms)"

definition on_http_listening :: "server \<Rightarrow> string option list \<Rightarrow> server \<times> effect list" where
  "on_http_listening s rs =
     (let ms = (if length rs > 0 then foldl merge_room (masterRoomIds s) rs
                else masterRoomIds s)
      in (s\<lparr>masterRoomIds := ms, runningMode := Parent, httpServer := True,
            socketServer := True\<rparr>,
          [Io_server]))"

text \<open>The handlers of the client socket \<open>k\<close> (lines 127-158).\<close>

definition claim_room ::
  "sock \<Rightarrow> string option list \<times> effect list \<Rightarrow> string option \<Rightarrow>
   string option list \<times> effect list" where
  "claim_room k acc r =
     (if truthy r
      then (push_absent (fst acc) r, snd acc @ [Socket_emit k (Match_target_event r)])
      else acc)"

definition on_uplink_connect ::
  "server \<Rightarrow> sock \<Rightarrow> string option list \<Rightarrow> server \<times> effect list" where
  "on_uplink_connect s k rs =
     (if length rs > 0 then
        (let (ms, e) = foldl (claim_room k) (masterRoomIds s, []) rs
         in (s\<lparr>masterRoomIds := ms\<rparr>, e))
      else (s, []))"

definition on_uplink_message :: "server \<Rightarrow> payload \<Rightarrow> server \<times> effect list" where
  "on_uplink_message s p = (s, [Handle_server_data p])"

definition on_uplink_mode :: "server \<Rightarrow> server_mode_type \<Rightarrow> server \<times> effect list" where
  "on_uplink_mode s m = (s, [])"

definition on_reconnect_failed :: "server \<Rightarrow> sock \<Rightarrow> server \<times> effect list" where
  "on_reconnect_failed s k =
     (let (s1, e1) = toggleServerMode s Single;
          s2 = s1\<lparr>socketClient := None\<rparr>;
          (s3, e3) = open_server s2
      in (s3, [Socket_close k] @ e1 @ e3))"

definition on_uplink_disconnect :: "server \<Rightarrow> sock \<Rightarrow> server \<times> effect list" where
  "on_uplink_disconnect s k =
     (let s2 = s\<lparr>socketClient := None\<rparr>;
          (s3, e3) = open_server s2
      in (s3, [Socket_close k] @ e3))"

text \<open>
  The handlers of the socket server (lines 181-282). \<open>is_childServer\<close> is the test
  \<open>connection.handshake.query.childServer === 'true'\<close>, which throws when the connection
  has no handshake; line 225 guards it.
\<close>

definition is_childServer :: "handshake_query \<Rightarrow> bool" where
  "is_childServer h = (q_childServer h = Some ''true'')"

text \<open>The mode that lines 197-204 choose from the number of registered relays.\<close>

definition display_mode :: "server \<Rightarrow> server_mode_type" where
  "display_mode s = (if length (childServerList s) > 0 then Multi else Single)"

definition on_connection ::
  "server \<Rightarrow> connection \<Rightarrow> server \<times> connection \<times> effect list \<times> error option" where
  "on_connection s c =
     (let s1 = s\<lparr>connectionSet := set_key (connectionSet s) (conn_id c),
                 connections := connections s @ [Entry_socket (conn_id c)]\<rparr>;
          e1 = [Server_event ''connection''] @ rendererConsole_info ''Entry connected.''
      in case handshake c of
           None \<Rightarrow> (s1, c, e1, Some TypeError)
         | Some h \<Rightarrow>
             (let r = q_roomId h;
                  s2 = (if is_childServer h
                        then s1\<lparr>childServerList := set_key (childServerList s1) (conn_id c)\<rparr>
                        else s1);
                  c2 = (if is_childServer h then c else c\<lparr>roomId := r\<rparr>);
                  e2 = (if is_childServer h then [] else [Socket_join (conn_id c) r]);
                  m = (if length (childServerList s2) > 0 then Multi else Single);
                  (s3, e3) = toggleServerMode s2 m;
                  (s4, e4, x) = setState s3 (state s3)
              in (s4, c2, e1 @ e2 @ [Server_emit (Mode_event m)] @ e3 @ e4, x)))"

definition on_matchTarget ::
  "server \<Rightarrow> connection \<Rightarrow> string option \<Rightarrow>
   server \<times> connection \<times> effect list \<times> error option" where
  "on_matchTarget s c d =
     (case handshake c of
        None \<Rightarrow> (s, c, [], Some TypeError)
      | Some h \<Rightarrow>
          (if is_childServer h \<and> truthy d then
             (let r = the d;
                  rs = (case roomIds c of None \<Rightarrow> [] | Some xs \<Rightarrow> xs)
              in (s\<lparr>clientTargetList := table_store (clientTargetList s) r (conn_id c)\<rparr>,
                  c\<lparr>roomIds := Some (push_absent rs r)\<rparr>,
                  [Server_to (Some r) (Matched_event (conn_id c))], None))
           else (s, c, [], None)))"

definition on_disconnect :: "server \<Rightarrow> connection \<Rightarrow> server \<times> effect list" where
  "on_disconnect s c =
     (if (case handshake c of None \<Rightarrow> False | Some h \<Rightarrow> is_childServer h) then
        (let e1 = (case roomIds c of
                     None \<Rightarrow> []
                   | Some rs \<Rightarrow>
                       (if length rs > 0
                        then map (\<lambda>r. Server_to (Some r) Matching_event) rs else []));
             s1 = s\<lparr>connectionSet := delete_key (connectionSet s) (conn_id c),
                    childServerList := delete_key (childServerList s) (conn_id c)\<rparr>
         in if length (childServerList s1) \<le> 0 then
              (let (s2, e2) = toggleServerMode s1 Single
               in (s2, e1 @ [Server_emit (Mode_event Single)] @ e2))
            else (s1, e1))
      else (s\<lparr>connectionSet := delete_key (connectionSet s) (conn_id c)\<rparr>, []))"

text \<open>
  The \<open>message\<close> handler (lines 244-274), in its three steps: the module fetch of an
  \<open>init\<close> message, the routing, the acknowledgement. An exception ends the handler
  where it is thrown; the calls made before it stay made. For a name that is not a
  string, \<open>_requestHardware\<close> goes by its truthiness (line 323) and by its string form
  (line 334).
\<close>

definition init_step :: "message \<Rightarrow> effect list \<times> error option" where
  "init_step msg =
     (if action msg = Some ''init'' then
        (case data msg of
           Not_json \<Rightarrow> ([], Some SyntaxError)
         | Json_null \<Rightarrow> ([], Some TypeError)
         | Parsed name \<Rightarrow> (snd (requestHardware name), None)
         | Parsed_other t text \<Rightarrow>
             (if t
              then ([Net_request ''localhost:4000'' ''http:''
                       (''/api/hardware/'' @ text @ ''/module''), Request_end], None)
              else ([], None)))
      else ([], None))"

definition route :: "server \<Rightarrow> connection \<Rightarrow> message \<Rightarrow> effect list \<times> error option" where
  "route s c msg =
     (if mode msg = Some Single \<or> indexOf (masterRoomIds s) (roomId c) \<ge> 0 then
        ([Handle_server_data (App msg)], None)
      else
        (case handshake c of
           None \<Rightarrow> ([], Some TypeError)
         | Some h \<Rightarrow>
             (if is_childServer h then
                (case roomIds c of
                   None \<Rightarrow> ([], None)
                 | Some rs \<Rightarrow>
                     (if length rs > 0
                      then (map (\<lambda>r. Server_to (Some r) (Message_event (App msg))) rs, None)
                      else ([], None)))
              else
                (case table_lookup (clientTargetList s) (js_string (roomId c)) of
                   Absent \<Rightarrow> ([], None)
                 | Own t \<Rightarrow>
                     (if t \<noteq> []
                      then ([Server_to (Some t) (Message_event (App msg))], None)
                      else ([], None))
                 | Inherited k \<Rightarrow>
                     ([Server_to_inherited k (Message_event (App msg))], None)))))"

definition ack_step :: "message \<Rightarrow> bool \<Rightarrow> effect list" where
  "ack_step msg ack =
     (if ack then [Ack (case key msg of None \<Rightarrow> Key_true | Some k \<Rightarrow> Key k)] else [])"

definition on_message ::
  "server \<Rightarrow> connection \<Rightarrow> message \<Rightarrow> bool \<Rightarrow> effect list \<times> error option" where
  "on_message s c msg ack =
     (case init_step msg of
        (e1, Some x) \<Rightarrow> (e1, Some x)
      | (e1, None) \<Rightarrow>
          (case route s c msg of
             (e2, Some x) \<Rightarrow> (e1 @ e2, Some x)
           | (e2, None) \<Rightarrow> (e1 @ e2 @ ack_step msg ack, None)))"

text \<open>The \<open>close\<close> handler of a connection (lines 276-280).\<close>

definition on_close :: "server \<Rightarrow> server \<times> effect list" where
  "on_close s =
     (let (s1, e1) = closeSingleConnection s This_server
      in (s1, rendererConsole_warn ''Entry disconnected.'' @ [Server_event ''close''] @ e1))"

section \<open>Sequences of events\<close>

text \<open>
  The connect and disconnect events of the socket server, each with the connection
  object as it is when the event arrives, and the server after a sequence of them.
\<close>

datatype hub_event = Connect connection | Disconnect connection

fun hub_step :: "server \<Rightarrow> hub_event \<Rightarrow> server" where
  "hub_step s (Connect c) = fst (on_connection s c)"
| "hub_step s (Disconnect c) = fst (on_disconnect s c)"

definition hub_run :: "server \<Rightarrow> hub_event list \<Rightarrow> server" where
  "hub_run s evs = foldl hub_step s evs"

text \<open>
  The relays that are live after a sequence of these events, told from the events
  alone: a connection is a relay when its handshake declares \<open>childServer\<close>; a relay is
  live from the event that connects it to the event that disconnects it. \<open>L\<close> holds the
  ids of the relays live before the sequence.
\<close>

definition declares_relay :: "connection \<Rightarrow> bool" where
  "declares_relay c =
     (case handshake c of None \<Rightarrow> False | Some h \<Rightarrow> q_childServer h = Some ''true'')"

fun live_relays :: "string set \<Rightarrow> hub_event list \<Rightarrow> string set" where
  "live_relays L [] = L"
| "live_relays L (Connect c # evs) =
     live_relays (if declares_relay c then insert (conn_id c) L else L) evs"
| "live_relays L (Disconnect c # evs) =
     live_relays (if declares_relay c then L - {conn_id c} else L) evs"

text \<open>
  Every method of the class and every event one of its handlers receives, with the
  arguments the caller or the environment supplies, and the server after it.
  \<open>_requestHardware\<close> and the events of a fetch touch no field of the server.
\<close>

datatype operation =
    Call_addRoomIdsOnSecondInstance "string option"
  | Call_toggleServerMode server_mode_type
  | Call_open
  | Call_send payload
  | Call_setState "string option"
  | Call_disconnectHardware
  | Call_closeSingleConnection obj
  | Call_close
  | Call_requestHardware "string option"
  | Http_error sock
  | Http_listening "string option list"
  | Uplink_connect sock "string option list"
  | Uplink_message payload
  | Uplink_mode server_mode_type
  | Uplink_reconnect_failed sock
  | Uplink_disconnect sock
  | Hub_connection connection
  | Hub_matchTarget connection "string option"
  | Hub_disconnect connection
  | Hub_message connection message bool
  | Hub_close

fun after :: "server \<Rightarrow> operation \<Rightarrow> server" where
  "after s (Call_addRoomIdsOnSecondInstance r) = fst (addRoomIdsOnSecondInstance s r)"
| "after s (Call_toggleServerMode m) = fst (toggleServerMode s m)"
| "after s Call_open = fst (open_server s)"
| "after s (Call_send p) = s"
| "after s (Call_setState st) = fst (setState s st)"
| "after s Call_disconnectHardware = s"
| "after s (Call_closeSingleConnection c) = fst (closeSingleConnection s c)"
| "after s Call_close = fst (close_server s)"
| "after s (Call_requestHardware n) = s"
| "after s (Http_error k) = fst (on_http_error s k)"
| "after s (Http_listening rs) = fst (on_http_listening s rs)"
| "after s (Uplink_connect k rs) = fst (on_uplink_connect s k rs)"
| "after s (Uplink_message p) = fst (on_uplink_message s p)"
| "after s (Uplink_mode m) = fst (on_uplink_mode s m)"
| "after s (Uplink_reconnect_failed k) = fst (on_reconnect_failed s k)"
| "after s (Uplink_disconnect k) = fst (on_uplink_disconnect s k)"
| "after s (Hub_connection c) = fst (on_connection s c)"
| "after s (Hub_matchTarget c d) = fst (on_matchTarget s c d)"
| "after s (Hub_disconnect c) = fst (on_disconnect s c)"
| "after s (Hub_message c msg ack) = s"
| "after s Hub_close = fst (on_close s)"

definition run :: "server \<Rightarrow> operation list \<Rightarrow> server" where
  "run s ops = foldl after s ops"

text \<open>
  What the embedding relies on in a server state: the packet is the constructor's
  buffer with its fourth byte possibly rewritten, and the key lists hold each key once.
\<close>

definition well_formed :: "server \<Rightarrow> bool" where
  "well_formed s \<longleftrightarrow>
     (\<exists>x. packet s = [1, 0, 0, x]) \<and> distinct (childServerList s) \<and> distinct (connectionSet s)
     \<and> clientTargetList s ''__proto__'' = None"

section \<open>Facts about the primitives\<close>

lemma indexOf_lower: "- 1 \<le> indexOf xs x"
  by (induction xs) (auto simp: Let_def)

lemma indexOf_absent: "indexOf xs x = - 1 \<longleftrightarrow> x \<notin> set xs"
proof (induction xs)
  case Nil
  show ?case by simp
next
  case (Cons y ys)
  have "- 1 \<le> indexOf ys x" by (rule indexOf_lower)
  with Cons show ?case by (auto simp: Let_def)
qed

lemma indexOf_present: "0 \<le> indexOf xs x \<longleftrightarrow> x \<in> set xs"
  using indexOf_lower [of xs x] indexOf_absent [of xs x] by auto

section \<open>States the server can reach\<close>

lemma after_well_formed: "well_formed s \<Longrightarrow> well_formed (after s op)"
proof (cases op)
  case (Call_setState st)
  assume "well_formed s"
  then show ?thesis
    using Call_setState by (auto simp: well_formed_def setState_def Let_def split: option.splits)
next
  case (Hub_connection c)
  assume "well_formed s"
  then show ?thesis
    using Hub_connection
    by (cases "handshake c")
       (auto simp: well_formed_def on_connection_def toggleServerMode_def setState_def Let_def
          set_key_def case_prod_beta split: option.splits)
next
  case (Hub_disconnect c)
  assume "well_formed s"
  then show ?thesis
    using Hub_disconnect
    by (auto simp: well_formed_def on_disconnect_def toggleServerMode_def Let_def
          delete_key_def distinct_removeAll case_prod_beta split: option.splits)
next
  case (Call_closeSingleConnection c)
  assume "well_formed s"
  then show ?thesis
    using Call_closeSingleConnection
    by (cases c) (auto simp: well_formed_def closeSingleConnection_def close_server_def Let_def)
next
  case (Hub_matchTarget c d)
  assume "well_formed s"
  then show ?thesis
    using Hub_matchTarget
    by (cases "handshake c")
       (auto simp: well_formed_def on_matchTarget_def table_store_def Let_def)
next
  case (Uplink_connect k rs)
  assume "well_formed s"
  then show ?thesis
    using Uplink_connect
    by (auto simp: well_formed_def on_uplink_connect_def case_prod_beta)
qed (auto simp: well_formed_def addRoomIdsOnSecondInstance_def toggleServerMode_def
      open_server_def close_server_def on_http_error_def on_http_listening_def
      on_uplink_message_def on_uplink_mode_def on_reconnect_failed_def on_uplink_disconnect_def
      on_close_def closeSingleConnection_def indexOf_present case_prod_beta Let_def)

lemma new_Server_well_formed: "well_formed new_Server"
  by (simp add: well_formed_def new_Server_def)

lemma run_well_formed: "well_formed (run new_Server ops)"
proof -
  have "well_formed s \<Longrightarrow> well_formed (foldl after s ops)" for s
    by (induction ops arbitrary: s) (simp_all add: after_well_formed)
  then show ?thesis
    by (simp add: run_def new_Server_well_formed)
qed

section \<open>The message router\<close>

lemma init_step_parses:
  "action msg = Some ''init'' \<longrightarrow> data msg \<notin> {Not_json, Json_null} \<Longrightarrow> snd (init_step msg) = None"
  by (cases "data msg") (simp_all add: init_step_def)

lemma init_step_throws_iff:
  "snd (init_step msg) \<noteq> None
     \<longleftrightarrow> action msg = Some ''init'' \<and> data msg \<in> {Not_json, Json_null}"
  by (cases "data msg") (simp_all add: init_step_def)

lemma route_local:
  "mode msg = Some Single \<or> roomId c \<in> set (masterRoomIds s) \<Longrightarrow>
   route s c msg = ([Handle_server_data (App msg)], None)"
  by (auto simp: route_def indexOf_present)

lemma on_message_routed:
  "snd (init_step msg) = None \<Longrightarrow> route s c msg = (e, None) \<Longrightarrow>
   on_message s c msg ack = (fst (init_step msg) @ e @ ack_step msg ack, None)"
  by (cases "init_step msg") (simp add: on_message_def)

text \<open>
  C1, as stated, fails: an \<open>init\<close> message on which line 247 throws ends the handler
  there, before the routing of lines 251-255, and is not handed to \<open>handleServerData\<close>,
  although its mode is Single and the room of its connection is in \<open>masterRoomIds\<close>. Line
  247 throws a SyntaxError when \<open>JSON.parse\<close> refuses the data (in JavaScript,
  \<open>{action: 'init', data: '{', mode: SERVER_MODE_TYPES.single}\<close>), and a TypeError when the
  data parses to \<open>null\<close> (\<open>data: 'null'\<close>).
\<close>

theorem local_dispatch_counterexample:
  "on_message
     (new_Server\<lparr>masterRoomIds := [Some ''r1''], socketServer := True\<rparr>)
     \<lparr>conn_id = ''a'', handshake = Some \<lparr>q_roomId = Some ''r1'', q_childServer = None\<rparr>,
      roomId = Some ''r1'', roomIds = None\<rparr>
     \<lparr>action = Some ''init'', mode = Some Single, data = Not_json, key = None\<rparr>
     True
   = ([], Some SyntaxError)
   \<and> on_message
     (new_Server\<lparr>masterRoomIds := [Some ''r1''], socketServer := True\<rparr>)
     \<lparr>conn_id = ''a'', handshake = Some \<lparr>q_roomId = Some ''r1'', q_childServer = None\<rparr>,
      roomId = Some ''r1'', roomIds = None\<rparr>
     \<lparr>action = Some ''init'', mode = Some Single, data = Json_null, key = None\<rparr>
     True
   = ([], Some TypeError)"
  by (simp add: on_message_def init_step_def)

text \<open>
  C1, amended: for every server state, connection and message on which line 247 does
  not throw (the message is not an \<open>init\<close> message, or it is one whose data \<open>JSON.parse\<close>
  accepts and does not parse to \<open>null\<close>; by \<open>init_step_throws_iff\<close> line 247 throws on every
  other message), if the mode of the message is Single or the \<open>roomId\<close> of the connection
  is in \<open>masterRoomIds\<close>, the handler hands the message to \<open>handleServerData\<close> and forwards
  it nowhere: after the calls of the module fetch (none unless the message is an
  \<open>init\<close> message) it makes that one call, then acknowledges if asked to, and throws
  nothing. The state is arbitrary, so a message of mode Single is dispatched locally
  whatever \<open>masterRoomIds\<close> holds.
\<close>

theorem local_dispatch:
  assumes "action msg = Some ''init'' \<longrightarrow> data msg \<notin> {Not_json, Json_null}"
    and "mode msg = Some Single \<or> roomId c \<in> set (masterRoomIds s)"
  shows "on_message s c msg ack =
           (fst (init_step msg) @ [Handle_server_data (App msg)] @ ack_step msg ack, None)"
proof -
  have "snd (init_step msg) = None"
    using assms(1) by (rule init_step_parses)
  moreover have "route s c msg = ([Handle_server_data (App msg)], None)"
    using assms(2) by (rule route_local)
  ultimately show ?thesis
    by (rule on_message_routed)
qed

theorem local_dispatch_witness:
  "on_message
     new_Server
     \<lparr>conn_id = ''a'', handshake = Some \<lparr>q_roomId = Some ''r1'', q_childServer = None\<rparr>,
      roomId = Some ''r1'', roomIds = None\<rparr>
     \<lparr>action = Some ''init'', mode = Some Single, data = Parsed (Some ''uno''), key = None\<rparr>
     True
   = ([Net_request ''localhost:4000'' ''http:'' ''/api/hardware/uno/module'', Request_end,
       Handle_server_data
         (App \<lparr>action = Some ''init'', mode = Some Single, data = Parsed (Some ''uno''),
               key = None\<rparr>),
       Ack Key_true], None)"
  using local_dispatch
    [of "\<lparr>action = Some ''init'', mode = Some Single, data = Parsed (Some ''uno''), key = None\<rparr>"
        "\<lparr>conn_id = ''a'', handshake = Some \<lparr>q_roomId = Some ''r1'', q_childServer = None\<rparr>,
          roomId = Some ''r1'', roomIds = None\<rparr>"
        new_Server True]
  by (simp add: init_step_def ack_step_def requestHardware_def truthy_def module_path_def
      js_string_def)




lemma route_inherited_key:
  "route new_Server
     \<lparr>conn_id = ''a'', handshake = Some \<lparr>q_roomId = Some ''constructor'', q_childServer = None\<rparr>,
      roomId = Some ''constructor'', roomIds = None\<rparr>
     \<lparr>action = None, mode = Some Multi, data = Parsed None, key = None\<rparr>
   = ([Server_to_inherited ''constructor''
         (Message_event
            (App \<lparr>action = None, mode = Some Multi, data = Parsed None, key = None\<rparr>))],
      None)"
  by (simp add: route_def new_Server_def js_string_def table_lookup_def
        object_prototype_keys_def is_childServer_def)

section \<open>The state broadcaster\<close>

text \<open>
  C5: \<open>send(payload)\<close> emits the payload as a \<open>message\<close> to every connection of
  \<open>this.connections\<close>, in order, when the role is \<open>parent\<close> and no relay is registered, or
  the role is \<open>child\<close>. Otherwise, the hub having its broadcaster (\<open>this.socketServer\<close>,
  which the \<open>listening\<close> handler sets before a relay can attach), it emits the payload
  through the broadcaster to every room of \<open>masterRoomIds\<close>, in order. Nothing else is
  called and nothing is thrown.
\<close>

theorem send_destinations:
  "((runningMode s = Parent \<and> length (childServerList s) = 0) \<or> runningMode s = Child \<longrightarrow>
      send s p = (map (\<lambda>k. Socket_emit k (Message_event p)) (connections s), None))
   \<and> (\<not> ((runningMode s = Parent \<and> length (childServerList s) = 0) \<or> runningMode s = Child)
        \<and> socketServer s \<longrightarrow>
      send s p = (map (\<lambda>r. Server_to r (Message_event p)) (masterRoomIds s), None))"
  by (simp add: send_def)

theorem send_destinations_witness:
  "send (new_Server\<lparr>connections := [Entry_socket ''a'', Entry_socket ''b'']\<rparr>)
     (State_statement ''x'')
     = ([Socket_emit (Entry_socket ''a'') (Message_event (State_statement ''x'')),
         Socket_emit (Entry_socket ''b'') (Message_event (State_statement ''x''))], None)
   \<and> send (new_Server\<lparr>connections := [Entry_socket ''a'', Entry_socket ''relay''],
              childServerList := [''relay''], socketServer := True,
              masterRoomIds := [Some ''r1'', Some ''r2'']\<rparr>) (State_statement ''x'')
     = ([Server_to (Some ''r1'') (Message_event (State_statement ''x'')),
         Server_to (Some ''r2'') (Message_event (State_statement ''x''))], None)"
  using send_destinations
      [of "new_Server\<lparr>connections := [Entry_socket ''a'', Entry_socket ''b'']\<rparr>"
          "State_statement ''x''"]
    send_destinations
      [of "new_Server\<lparr>connections := [Entry_socket ''a'', Entry_socket ''relay''],
              childServerList := [''relay''], socketServer := True,
              masterRoomIds := [Some ''r1'', Some ''r2'']\<rparr>"
          "State_statement ''x''"]
  by (simp add: new_Server_def)

lemma send_needs_broadcaster:
  "runningMode s = Parent \<Longrightarrow> childServerList s \<noteq> [] \<Longrightarrow> masterRoomIds s \<noteq> [] \<Longrightarrow>
   \<not> socketServer s \<Longrightarrow> send s p = ([], Some TypeError)"
  by (simp add: send_def)

text \<open>
  C7, as stated, fails: on a server whose \<open>this.connections\<close> is empty,
  \<open>setState('connected')\<close> leaves the fourth byte of the packet at \<open>0x00\<close>. The assignment
  to \<open>packet[3]\<close> stands inside the test \<open>this.connections.length\<close> of line 399, with the
  call of \<open>send\<close>.
\<close>

theorem setState_counterexample:
  "packet (fst (setState new_Server (Some ''connected''))) = [1, 0, 0, 0]"
  by (simp add: setState_def new_Server_def)

lemma on_disconnect_keeps_connections:
  "connections (fst (on_disconnect s c)) = connections s"
  by (simp add: on_disconnect_def toggleServerMode_def Let_def case_prod_beta)

lemma after_keeps_connections:
  "op \<noteq> Call_close \<Longrightarrow> prefix (connections s) (connections (after s op))"
proof (cases op)
  case (Call_setState st)
  then show ?thesis
    by (auto simp: setState_def Let_def split: option.splits)
next
  case (Call_closeSingleConnection c)
  have "indexOf (map Sock (connections s)) This_server = - 1"
    by (auto simp: indexOf_absent)
  with Call_closeSingleConnection show ?thesis
    by (cases c) (simp_all add: closeSingleConnection_def Let_def)
next
  case (Hub_connection c)
  then show ?thesis
    by (cases "handshake c")
       (auto simp: on_connection_def toggleServerMode_def setState_def Let_def
          case_prod_beta split: option.splits)
next
  case (Hub_matchTarget c d)
  then show ?thesis
    by (cases "handshake c") (simp_all add: on_matchTarget_def Let_def)
next
  case Hub_close
  have "indexOf (map Sock (connections s)) This_server = - 1"
    by (auto simp: indexOf_absent)
  with Hub_close show ?thesis
    by (simp add: on_close_def closeSingleConnection_def Let_def)
qed (simp_all add: addRoomIdsOnSecondInstance_def toggleServerMode_def open_server_def
      on_http_error_def on_http_listening_def on_uplink_connect_def on_uplink_message_def
      on_uplink_mode_def on_reconnect_failed_def on_uplink_disconnect_def
      on_disconnect_keeps_connections case_prod_beta Let_def)

text \<open>
  C7, amended: for the state names connecting, connected, lost and disconnected, with
  the codes 1, 2, 3 and 4, and a packet \<open>[1, 0, 0, x]\<close>: when \<open>this.connections\<close> is not empty,
  \<open>setState(name)\<close> records the name, makes the packet \<open>[1, 0, 0, code]\<close> and calls \<open>send\<close>
  with that packet as the payload's data; when \<open>this.connections\<close> is empty, it records
  the name, leaves the packet as it is and sends nothing. The test is on the list, not
  on whether a connection is live: a socket stays in \<open>this.connections\<close> after it has
  disconnected, since only \<open>close()\<close> empties the list (\<open>after_keeps_connections\<close>). So
  \<open>setState('connected')\<close> sends \<open>[1, 0, 0, 2]\<close> and \<open>setState('lost')\<close> sends \<open>[1, 0, 0, 3]\<close>
  on a server whose list is not empty.
\<close>

theorem setState_packet:
  assumes "(name, b) \<in> set [(''connecting'', 1), (''connected'', 2), (''lost'', 3),
                              (''disconnected'', 4)]"
    and "packet s = [1, 0, 0, x]"
  shows "setState s (Some name) =
           (if connections s \<noteq> []
            then (s\<lparr>state := Some name, packet := [1, 0, 0, b]\<rparr>,
                  send (s\<lparr>state := Some name, packet := [1, 0, 0, b]\<rparr>)
                    (Packet_data [1, 0, 0, b]))
            else (s\<lparr>state := Some name\<rparr>, [], None))"
  using assms by (auto simp: setState_def state_code_def Let_def)

theorem setState_packet_witness:
  "setState (new_Server\<lparr>connections := [Entry_socket ''a'']\<rparr>) (Some ''connected'')
     = (new_Server\<lparr>connections := [Entry_socket ''a''], state := Some ''connected'',
                   packet := [1, 0, 0, 2]\<rparr>,
        [Socket_emit (Entry_socket ''a'') (Message_event (Packet_data [1, 0, 0, 2]))], None)
   \<and> setState (new_Server\<lparr>connections := [Entry_socket ''a'']\<rparr>) (Some ''lost'')
     = (new_Server\<lparr>connections := [Entry_socket ''a''], state := Some ''lost'',
                   packet := [1, 0, 0, 3]\<rparr>,
        [Socket_emit (Entry_socket ''a'') (Message_event (Packet_data [1, 0, 0, 3]))], None)"
  using setState_packet
      [of "''connected''" 2 "new_Server\<lparr>connections := [Entry_socket ''a'']\<rparr>" 0]
    setState_packet
      [of "''lost''" 3 "new_Server\<lparr>connections := [Entry_socket ''a'']\<rparr>" 0]
  by (simp add: new_Server_def send_def)

section \<open>The connection registry\<close>

lemma setState_keeps_mode:
  "currentServerMode (fst (setState s st)) = currentServerMode s"
  "childServerList (fst (setState s st)) = childServerList s"
  by (auto simp: setState_def Let_def split: option.splits)

lemma on_connection_display_mode:
  "currentServerMode s = display_mode s \<Longrightarrow>
   currentServerMode (fst (on_connection s c)) = display_mode (fst (on_connection s c))"
  by (cases "handshake c")
     (simp_all add: on_connection_def toggleServerMode_def Let_def display_mode_def
        setState_keeps_mode case_prod_beta)

lemma on_disconnect_display_mode:
  "currentServerMode s = display_mode s \<Longrightarrow>
   currentServerMode (fst (on_disconnect s c)) = display_mode (fst (on_disconnect s c))"
  by (auto simp: on_disconnect_def toggleServerMode_def Let_def display_mode_def delete_key_def
           split: option.splits if_splits)

lemma hub_run_display_mode:
  "currentServerMode s = display_mode s \<Longrightarrow>
   currentServerMode (hub_run s evs) = display_mode (hub_run s evs)"
  unfolding hub_run_def
proof (induction evs arbitrary: s)
  case Nil
  then show ?case by simp
next
  case (Cons ev evs)
  have "currentServerMode (hub_step s ev) = display_mode (hub_step s ev)"
    using Cons.prems
    by (cases ev) (simp_all add: on_connection_display_mode on_disconnect_display_mode)
  then show ?case
    using Cons.IH by simp
qed

lemma hub_run_after_connect:
  assumes "handshake c \<noteq> None"
  shows "currentServerMode (hub_run s (Connect c # evs))
           = display_mode (hub_run s (Connect c # evs))"
proof -
  have "currentServerMode (fst (on_connection s c)) = display_mode (fst (on_connection s c))"
    using assms
    by (cases "handshake c")
       (simp_all add: on_connection_def toggleServerMode_def Let_def display_mode_def
          setState_keeps_mode case_prod_beta)
  then have "currentServerMode (hub_run (fst (on_connection s c)) evs)
               = display_mode (hub_run (fst (on_connection s c)) evs)"
    by (rule hub_run_display_mode)
  then show ?thesis
    by (simp add: hub_run_def)
qed

lemma on_connection_relays:
  "distinct (childServerList s) \<Longrightarrow>
   distinct (childServerList (fst (on_connection s c)))
   \<and> set (childServerList (fst (on_connection s c)))
       = (if declares_relay c then insert (conn_id c) (set (childServerList s))
          else set (childServerList s))"
  by (cases "handshake c")
     (auto simp: on_connection_def toggleServerMode_def Let_def case_prod_beta
        setState_keeps_mode declares_relay_def is_childServer_def set_key_def)

lemma on_disconnect_childServerList:
  "childServerList (fst (on_disconnect s c))
     = (if declares_relay c then delete_key (childServerList s) (conn_id c)
        else childServerList s)"
  by (cases "handshake c")
     (simp_all add: on_disconnect_def toggleServerMode_def Let_def case_prod_beta
        declares_relay_def is_childServer_def)

lemma on_disconnect_relays:
  "distinct (childServerList s) \<Longrightarrow>
   distinct (childServerList (fst (on_disconnect s c)))
   \<and> set (childServerList (fst (on_disconnect s c)))
       = (if declares_relay c then set (childServerList s) - {conn_id c}
          else set (childServerList s))"
  by (simp add: on_disconnect_childServerList delete_key_def distinct_removeAll)

lemma hub_run_relays:
  "distinct (childServerList s) \<Longrightarrow>
   distinct (childServerList (hub_run s evs))
   \<and> set (childServerList (hub_run s evs)) = live_relays (set (childServerList s)) evs"
proof (induction evs arbitrary: s)
  case Nil
  then show ?case by (simp add: hub_run_def)
next
  case (Cons ev evs)
  show ?case
  proof (cases ev)
    case (Connect c)
    have step: "distinct (childServerList (fst (on_connection s c)))
      \<and> set (childServerList (fst (on_connection s c)))
          = (if declares_relay c then insert (conn_id c) (set (childServerList s))
             else set (childServerList s))"
      using Cons.prems by (rule on_connection_relays)
    have "hub_run s (ev # evs) = hub_run (fst (on_connection s c)) evs"
      using Connect by (simp add: hub_run_def)
    then show ?thesis
      using Cons.IH [of "fst (on_connection s c)"] step Connect by simp
  next
    case (Disconnect c)
    have step: "distinct (childServerList (fst (on_disconnect s c)))
      \<and> set (childServerList (fst (on_disconnect s c)))
          = (if declares_relay c then set (childServerList s) - {conn_id c}
             else set (childServerList s))"
      using Cons.prems by (rule on_disconnect_relays)
    have "hub_run s (ev # evs) = hub_run (fst (on_disconnect s c)) evs"
      using Disconnect by (simp add: hub_run_def)
    then show ?thesis
      using Cons.IH [of "fst (on_disconnect s c)"] step Disconnect by simp
  qed
qed

lemma hub_run_relay_count:
  assumes "distinct (childServerList s)"
  shows "length (childServerList (hub_run s evs))
           = card (live_relays (set (childServerList s)) evs)"
proof -
  have "distinct (childServerList (hub_run s evs))"
    and "set (childServerList (hub_run s evs)) = live_relays (set (childServerList s)) evs"
    using hub_run_relays [OF assms, of evs] by simp_all
  then show ?thesis
    using distinct_card [of "childServerList (hub_run s evs)"] by simp
qed

lemma hub_run_mode_matches:
  assumes "currentServerMode s = display_mode s
           \<or> (0 < n \<and> (\<exists>c evs'. evs = Connect c # evs' \<and> handshake c \<noteq> None))"
  shows "currentServerMode (hub_run s (take n evs)) = display_mode (hub_run s (take n evs))"
  using assms
proof
  assume "currentServerMode s = display_mode s"
  then show ?thesis by (rule hub_run_display_mode)
next
  assume a: "0 < n \<and> (\<exists>c evs'. evs = Connect c # evs' \<and> handshake c \<noteq> None)"
  then obtain c evs' where e: "evs = Connect c # evs'" and h: "handshake c \<noteq> None"
    by blast
  from a obtain m where n: "n = Suc m"
    by (cases n) auto
  have "take n evs = Connect c # take m evs'"
    using e n by simp
  then show ?thesis
    using hub_run_after_connect [OF h, of s "take m evs'"] by simp
qed

text \<open>
  C2: take a server whose \<open>childServerList\<close> holds each key once (every state the server
  reaches does, by \<open>run_well_formed\<close>), and any sequence of connect and disconnect events
  of its socket server. Let the mode agree with the number of registered relays at the
  start, as on a fresh hub; or let at least one event have happened and the first
  event be the connection of a socket with its handshake, as it is on every hub, also
  on one that was promoted with the mode still at Multi. Then after the first \<open>n\<close>
  events, for every \<open>n\<close>, the number of keys of \<open>childServerList\<close> is the number of live
  relays (those registered at the start or connected since, and not disconnected
  since, as \<open>live_relays\<close> tells from the events), and \<open>currentServerMode\<close> is Multi if that
  number is greater than zero, and Single otherwise.
\<close>

theorem display_mode_follows_relays:
  assumes "distinct (childServerList s)"
    and "currentServerMode s = display_mode s
         \<or> (0 < n \<and> (\<exists>c evs'. evs = Connect c # evs' \<and> handshake c \<noteq> None))"
  shows "length (childServerList (hub_run s (take n evs)))
           = card (live_relays (set (childServerList s)) (take n evs))
         \<and> currentServerMode (hub_run s (take n evs))
           = (if 0 < card (live_relays (set (childServerList s)) (take n evs))
              then Multi else Single)"
proof -
  have count: "length (childServerList (hub_run s (take n evs)))
           = card (live_relays (set (childServerList s)) (take n evs))"
    using assms(1) by (rule hub_run_relay_count)
  have "currentServerMode (hub_run s (take n evs)) = display_mode (hub_run s (take n evs))"
    using assms(2) by (rule hub_run_mode_matches)
  with count show ?thesis
    by (simp add: display_mode_def)
qed

theorem display_mode_follows_relays_witness:
  "live_relays {}
     [Connect \<lparr>conn_id = ''relay'',
               handshake = Some \<lparr>q_roomId = None, q_childServer = Some ''true''\<rparr>,
               roomId = None, roomIds = None\<rparr>,
      Connect \<lparr>conn_id = ''a'',
               handshake = Some \<lparr>q_roomId = Some ''r1'', q_childServer = None\<rparr>,
               roomId = None, roomIds = None\<rparr>]
     = {''relay''}
   \<and> currentServerMode
       (hub_run (fst (on_http_listening new_Server [Some ''r1'']))
          (take 2
            [Connect \<lparr>conn_id = ''relay'',
                      handshake = Some \<lparr>q_roomId = None, q_childServer = Some ''true''\<rparr>,
                      roomId = None, roomIds = None\<rparr>,
             Connect \<lparr>conn_id = ''a'',
                      handshake = Some \<lparr>q_roomId = Some ''r1'', q_childServer = None\<rparr>,
                      roomId = None, roomIds = None\<rparr>,
             Disconnect \<lparr>conn_id = ''relay'',
                      handshake = Some \<lparr>q_roomId = None, q_childServer = Some ''true''\<rparr>,
                      roomId = None, roomIds = None\<rparr>]))
     = Multi
   \<and> currentServerMode
       (hub_run (fst (on_http_listening new_Server [Some ''r1'']))
          (take 3
            [Connect \<lparr>conn_id = ''relay'',
                      handshake = Some \<lparr>q_roomId = None, q_childServer = Some ''true''\<rparr>,
                      roomId = None, roomIds = None\<rparr>,
             Connect \<lparr>conn_id = ''a'',
                      handshake = Some \<lparr>q_roomId = Some ''r1'', q_childServer = None\<rparr>,
                      roomId = None, roomIds = None\<rparr>,
             Disconnect \<lparr>conn_id = ''relay'',
                      handshake = Some \<lparr>q_roomId = None, q_childServer = Some ''true''\<rparr>,
                      roomId = None, roomIds = None\<rparr>]))
     = Single
   \<and> currentServerMode
       (fst (on_http_listening
          (fst (on_uplink_disconnect (fst (on_http_error new_Server (Uplink_socket 0)))
             (Uplink_socket 0))) []))
     = Multi
   \<and> currentServerMode
       (hub_run
          (fst (on_http_listening
             (fst (on_uplink_disconnect (fst (on_http_error new_Server (Uplink_socket 0)))
                (Uplink_socket 0))) []))
          (take 1
            [Connect \<lparr>conn_id = ''a'',
                      handshake = Some \<lparr>q_roomId = Some ''r1'', q_childServer = None\<rparr>,
                      roomId = None, roomIds = None\<rparr>]))
     = Single"
  using display_mode_follows_relays
      [of "fst (on_http_listening new_Server [Some ''r1''])" 2
          "[Connect \<lparr>conn_id = ''relay'',
                     handshake = Some \<lparr>q_roomId = None, q_childServer = Some ''true''\<rparr>,
                     roomId = None, roomIds = None\<rparr>,
            Connect \<lparr>conn_id = ''a'',
                     handshake = Some \<lparr>q_roomId = Some ''r1'', q_childServer = None\<rparr>,
                     roomId = None, roomIds = None\<rparr>,
            Disconnect \<lparr>conn_id = ''relay'',
                     handshake = Some \<lparr>q_roomId = None, q_childServer = Some ''true''\<rparr>,
                     roomId = None, roomIds = None\<rparr>]"]
    display_mode_follows_relays
      [of "fst (on_http_listening new_Server [Some ''r1''])" 3
          "[Connect \<lparr>conn_id = ''relay'',
                     handshake = Some \<lparr>q_roomId = None, q_childServer = Some ''true''\<rparr>,
                     roomId = None, roomIds = None\<rparr>,
            Connect \<lparr>conn_id = ''a'',
                     handshake = Some \<lparr>q_roomId = Some ''r1'', q_childServer = None\<rparr>,
                     roomId = None, roomIds = None\<rparr>,
            Disconnect \<lparr>conn_id = ''relay'',
                     handshake = Some \<lparr>q_roomId = None, q_childServer = Some ''true''\<rparr>,
                     roomId = None, roomIds = None\<rparr>]"]
    display_mode_follows_relays
      [of "fst (on_http_listening
             (fst (on_uplink_disconnect (fst (on_http_error new_Server (Uplink_socket 0)))
                (Uplink_socket 0))) [])" 1
          "[Connect \<lparr>conn_id = ''a'',
                     handshake = Some \<lparr>q_roomId = Some ''r1'', q_childServer = None\<rparr>,
                     roomId = None, roomIds = None\<rparr>]"]
  by (simp add: on_http_listening_def on_uplink_disconnect_def on_http_error_def
        toggleServerMode_def open_server_def new_Server_def display_mode_def
        declares_relay_def merge_room_def truthy_def)



text \<open>
  C10: for a socket that is in \<open>this.connections\<close>, \<open>closeSingleConnection\<close> closes the
  socket and returns the server as it was, the list with the socket still in it; for a
  socket that is not in the list it does nothing.
\<close>

theorem closeSingleConnection_keeps_list:
  "(k \<in> set (connections s) \<longrightarrow> closeSingleConnection s (Sock k) = (s, [Socket_close k]))
   \<and> (k \<notin> set (connections s) \<longrightarrow> closeSingleConnection s (Sock k) = (s, []))"
proof -
  have "indexOf (map Sock (connections s)) (Sock k) > - 1 \<longleftrightarrow> k \<in> set (connections s)"
    using indexOf_present [of "map Sock (connections s)" "Sock k"] by auto
  then show ?thesis
    by (simp add: closeSingleConnection_def Let_def)
qed

theorem closeSingleConnection_keeps_list_witness:
  "closeSingleConnection (new_Server\<lparr>connections := [Entry_socket ''a'', Entry_socket ''b'']\<rparr>)
     (Sock (Entry_socket ''a''))
     = (new_Server\<lparr>connections := [Entry_socket ''a'', Entry_socket ''b'']\<rparr>,
        [Socket_close (Entry_socket ''a'')])
   \<and> closeSingleConnection (new_Server\<lparr>connections := [Entry_socket ''a'', Entry_socket ''b'']\<rparr>)
     (Sock (Entry_socket ''c''))
     = (new_Server\<lparr>connections := [Entry_socket ''a'', Entry_socket ''b'']\<rparr>, [])"
  using closeSingleConnection_keeps_list
      [of "Entry_socket ''a''"
          "new_Server\<lparr>connections := [Entry_socket ''a'', Entry_socket ''b'']\<rparr>"]
    closeSingleConnection_keeps_list
      [of "Entry_socket ''c''"
          "new_Server\<lparr>connections := [Entry_socket ''a'', Entry_socket ''b'']\<rparr>"]
  by simp

section \<open>Failover of a subordinate\<close>

lemma reconnect_failed_demotes:
  "on_reconnect_failed s k =
     (s\<lparr>currentServerMode := Single, socketClient := None\<rparr>,
      [Socket_close k, Notify_server_mode Single, Http_listen 23518])"
  by (simp add: on_reconnect_failed_def toggleServerMode_def open_server_def)

lemma uplink_disconnect_reopens:
  "on_uplink_disconnect s k = (s\<lparr>socketClient := None\<rparr>, [Socket_close k, Http_listen 23518])"
  by (simp add: on_uplink_disconnect_def open_server_def)

text \<open>
  C3 at the input where the code departs from it: a server whose \<open>open\<close> met a bind
  error (role \<open>child\<close>, display mode Multi, client socket 0) and whose client socket
  then receives \<open>disconnect\<close>. The handler of lines 154-158 closes the socket, clears
  \<open>socketClient\<close> and calls \<open>open\<close> again, but \<open>currentServerMode\<close> stays Multi and the
  router is not notified; the \<open>reconnect_failed\<close> handler of lines 147-152 does set it
  to Single.
\<close>

theorem uplink_disconnect_keeps_multi:
  "on_uplink_disconnect (fst (on_http_error new_Server (Uplink_socket 0))) (Uplink_socket 0)
     = (new_Server\<lparr>runningMode := Child, currentServerMode := Multi,
          connections := [Uplink_socket 0], socketClient := None\<rparr>,
        [Socket_close (Uplink_socket 0), Http_listen 23518])"
  by (simp add: on_uplink_disconnect_def on_http_error_def toggleServerMode_def open_server_def
        new_Server_def)

section \<open>The rooms of the process\<close>

lemma prefix_push_absent: "prefix xs (push_absent xs v)"
  by (simp add: push_absent_def)

lemma prefix_merge_rooms: "prefix ms (foldl merge_room ms rs)"
proof (induction rs arbitrary: ms)
  case Nil
  show ?case by simp
next
  case (Cons r rs)
  have "prefix ms (merge_room ms r)"
    by (simp add: merge_room_def)
  also have "prefix (merge_room ms r) (foldl merge_room (merge_room ms r) rs)"
    by (rule Cons.IH)
  finally show ?case by simp
qed

lemma prefix_claim_rooms: "prefix (fst acc) (fst (foldl (claim_room k) acc rs))"
proof (induction rs arbitrary: acc)
  case Nil
  show ?case by simp
next
  case (Cons r rs)
  have "prefix (fst acc) (fst (claim_room k acc r))"
    by (simp add: claim_room_def prefix_push_absent)
  also have "prefix (fst (claim_room k acc r))
               (fst (foldl (claim_room k) (claim_room k acc r) rs))"
    by (rule Cons.IH)
  finally show ?case by simp
qed

lemma setState_masterRoomIds: "masterRoomIds (fst (setState s st)) = masterRoomIds s"
  by (auto simp: setState_def Let_def split: option.splits)

lemma closeSingleConnection_masterRoomIds:
  "masterRoomIds (fst (closeSingleConnection s c)) = masterRoomIds s"
  by (cases c) (auto simp: closeSingleConnection_def close_server_def Let_def)

lemma on_connection_masterRoomIds: "masterRoomIds (fst (on_connection s c)) = masterRoomIds s"
  by (cases "handshake c")
     (simp_all add: on_connection_def toggleServerMode_def Let_def case_prod_beta
        setState_masterRoomIds)

lemma on_matchTarget_masterRoomIds:
  "masterRoomIds (fst (on_matchTarget s c d)) = masterRoomIds s"
  by (cases "handshake c") (simp_all add: on_matchTarget_def Let_def)

lemma on_disconnect_masterRoomIds: "masterRoomIds (fst (on_disconnect s c)) = masterRoomIds s"
  by (simp add: on_disconnect_def toggleServerMode_def Let_def case_prod_beta)

lemma after_masterRoomIds: "prefix (masterRoomIds s) (masterRoomIds (after s op))"
proof (cases op)
  case (Call_addRoomIdsOnSecondInstance r)
  then show ?thesis by (simp add: addRoomIdsOnSecondInstance_def prefix_push_absent)
next
  case (Http_listening rs)
  then show ?thesis by (simp add: on_http_listening_def prefix_merge_rooms)
next
  case (Uplink_connect k rs)
  have "prefix (masterRoomIds s) (fst (foldl (claim_room k) (masterRoomIds s, []) rs))"
    using prefix_claim_rooms [of "(masterRoomIds s, [])" k rs] by simp
  with Uplink_connect show ?thesis
    by (simp add: on_uplink_connect_def case_prod_beta)
qed (simp_all add: toggleServerMode_def open_server_def setState_masterRoomIds
      closeSingleConnection_masterRoomIds close_server_def on_http_error_def
      on_uplink_message_def on_uplink_mode_def on_reconnect_failed_def on_uplink_disconnect_def
      on_connection_masterRoomIds on_matchTarget_masterRoomIds on_disconnect_masterRoomIds
      on_close_def case_prod_beta Let_def)

text \<open>
  C8: over any sequence of method calls and handled events, from any server state,
  \<open>masterRoomIds\<close> after the sequence is \<open>masterRoomIds\<close> before it with room ids
  appended, or is unchanged: no step removes or reorders an element.
\<close>

theorem masterRoomIds_grows: "prefix (masterRoomIds s) (masterRoomIds (run s ops))"
  unfolding run_def
proof (induction ops arbitrary: s)
  case Nil
  show ?case by simp
next
  case (Cons op ops)
  have "prefix (masterRoomIds s) (masterRoomIds (after s op))"
    by (rule after_masterRoomIds)
  also have "prefix (masterRoomIds (after s op)) (masterRoomIds (foldl after (after s op) ops))"
    by (rule Cons.IH)
  finally show ?case by simp
qed

section \<open>The hardware-module fetch\<close>

lemma fetch_step_dead:
  "phase f \<in> {No_request, Refused} \<Longrightarrow> settled f = Rejected \<Longrightarrow>
   fetch_step n f ev = (f, [], None)"
  by (cases ev) (auto simp: fetch_step_def settle_def)

lemma fetch_run_dead:
  "phase f \<in> {No_request, Refused} \<Longrightarrow> settled f = Rejected \<Longrightarrow>
   fetch_run n f evs = (f, [])"
  by (induction evs) (simp_all add: fetch_step_dead)

text \<open>
  C9: \<open>_requestHardware(moduleName)\<close> with a module name that is empty (or \<open>undefined\<close>)
  rejects at once and makes no call at all, whatever events follow. With any other
  name it sends one request, \<open>net.request\<close> for \<open>/api/hardware/<name>/module\<close> with no
  method given (a GET), and stays pending; when the response then carries a status
  other than 200 the promise is rejected, and whatever events follow, the calls made
  are that request and nothing else: no configuration reaches the router.
\<close>

theorem requestHardware_failures:
  "(\<not> truthy moduleName \<longrightarrow>
      hardware_fetch moduleName evs = (\<lparr>settled = Rejected, phase = No_request\<rparr>, []))
   \<and> (truthy moduleName \<longrightarrow>
      hardware_fetch moduleName []
        = (\<lparr>settled = Pending, phase = Awaiting_response\<rparr>,
           [Net_request ''localhost:4000'' ''http:'' (module_path moduleName), Request_end]))
   \<and> (truthy moduleName \<and> statusCode \<noteq> 200 \<longrightarrow>
      hardware_fetch moduleName (Response statusCode # evs)
        = (\<lparr>settled = Rejected, phase = Refused\<rparr>,
           [Net_request ''localhost:4000'' ''http:'' (module_path moduleName), Request_end]))"
  by (simp add: hardware_fetch_def requestHardware_def fetch_step_def settle_def fetch_run_dead)

theorem requestHardware_failures_witness:
  "hardware_fetch (Some '''') [Response 200, Zip_done, File_read (Some ''cfg'')]
     = (\<lparr>settled = Rejected, phase = No_request\<rparr>, [])
   \<and> hardware_fetch (Some ''uno'') []
     = (\<lparr>settled = Pending, phase = Awaiting_response\<rparr>,
        [Net_request ''localhost:4000'' ''http:'' ''/api/hardware/uno/module'', Request_end])
   \<and> hardware_fetch (Some ''uno'') [Response 404, Zip_done, File_read (Some ''cfg'')]
     = (\<lparr>settled = Rejected, phase = Refused\<rparr>,
        [Net_request ''localhost:4000'' ''http:'' ''/api/hardware/uno/module'', Request_end])"
  using requestHardware_failures
      [of "Some ''''" "[Response 200, Zip_done, File_read (Some ''cfg'')]" 0]
    requestHardware_failures [of "Some ''uno''" "[Zip_done, File_read (Some ''cfg'')]" 404]
  by (simp add: truthy_def module_path_def js_string_def)

end
